theory Spec2Isabelle
  imports Complex_Main
begin

section \<open>The environment adapter of \<^verbatim>\<open>mj_envs/envs/env_base.py\<close>\<close>

text \<open>
  The class \<^verbatim>\<open>MujocoEnv\<close> glues a physics simulator, a \<^verbatim>\<open>Robot\<close> proxy and the two
  hooks of a subclass into the reset/step interface of a reinforcement-learning
  environment. The embedding follows the Python text method by method:
  \<^item> a numpy array is the list of its elements in \<^verbatim>\<open>ravel()\<close> order, with real entries
    (floating-point rounding and NaN are outside the model; a boolean array is
    a list of 0/1 entries where it is stored in a dictionary of arrays);
  \<^item> a Python dictionary of arrays is a map from strings to arrays;
  \<^item> every \<^verbatim>\<open>raise\<close>, failed \<^verbatim>\<open>assert\<close> and failed lookup is a value \<open>Inl e\<close>;
  \<^item> the attributes of the object are a record that each method takes and returns;
  \<^item> the collaborators whose code is not in this file (the \<^verbatim>\<open>Robot\<close>, the
    \<^verbatim>\<open>ObsVecDict\<close> mixin, the hooks a subclass overrides, the model loader) are
    the fields of a record of functions, so that every theorem holds for each of them.
\<close>

subsection \<open>Errors and values\<close>

datatype error =
    NotImplementedError
  | KeyError string
  | AssertionError string
  | NameError string
  | AttributeError string
  | IOError string
  | ValueError string
  | ZeroDivisionError
  | OtherError string

type_synonym ndarray = "real list"

type_synonym dict = "string \<rightharpoonup> ndarray"

text \<open>A value stored in the \<^verbatim>\<open>env_info\<close> dictionary: an array, or a dictionary of arrays.\<close>

datatype pyval = Arr ndarray | Dict dict

text \<open>\<^verbatim>\<open>np.clip(a, lo, hi)\<close>: \<^verbatim>\<open>minimum(maximum(a, lo), hi)\<close>, element by element.\<close>

definition np_clip :: "ndarray \<Rightarrow> real \<Rightarrow> real \<Rightarrow> ndarray" where
  "np_clip a lo hi = map (\<lambda>x. min (max x lo) hi) a"

text \<open>
  \<^verbatim>\<open>bool(x)\<close> of an array: the truth value of its only element; an array of several
  elements has no truth value (numpy raises \<^verbatim>\<open>ValueError\<close>); the empty array is false
  (with a deprecation warning in the numpy releases this code was written for).
\<close>

fun py_bool :: "ndarray \<Rightarrow> error + bool" where
  "py_bool [] = Inr False"
| "py_bool [x] = Inr (x \<noteq> 0)"
| "py_bool (x # y # zs) = Inl (ValueError ''truth value of an array is ambiguous'')"

text \<open>\<^verbatim>\<open>d[k]\<close> on a dictionary: the value, or \<^verbatim>\<open>KeyError(k)\<close>.\<close>

definition getitem :: "(string \<rightharpoonup> 'v) \<Rightarrow> string \<Rightarrow> error + 'v" where
  "getitem d k = (case d k of None \<Rightarrow> Inl (KeyError k) | Some v \<Rightarrow> Inr v)"

subsection \<open>The simulator (\<^verbatim>\<open>mujoco_py.MjSim\<close>)\<close>

text \<open>
  The fields of \<^verbatim>\<open>sim.model\<close> and \<^verbatim>\<open>sim.data\<close> that the adapter reads or writes. The
  quantities that \<^verbatim>\<open>sim.forward()\<close> derives from them are not stored: the collaborators
  that need them compute them from this state.
\<close>

record mjsim =
  model_nq :: nat
  model_nv :: nat
  model_nu :: nat
  model_opt_timestep :: real
  model_actuator_ctrlrange :: "(real \<times> real) list"
  model_site_pos :: "ndarray"
  model_body_pos :: "ndarray"
  data_time :: real
  data_qpos :: ndarray
  data_qvel :: ndarray
  data_act :: ndarray
  data_udd_state :: dict
  data_mocap_pos :: ndarray
  data_mocap_quat :: ndarray

record MjSimState =
  state_time :: real
  state_qpos :: ndarray
  state_qvel :: ndarray
  state_act :: ndarray
  state_udd_state :: dict

definition sim_get_state :: "mjsim \<Rightarrow> MjSimState" where
  "sim_get_state s =
     \<lparr>state_time = data_time s, state_qpos = data_qpos s, state_qvel = data_qvel s,
      state_act = data_act s, state_udd_state = data_udd_state s\<rparr>"



subsection \<open>The object and its collaborators\<close>

text \<open>\<^verbatim>\<open>gym.spaces.Box(low, high)\<close>: the two bound vectors.\<close>

type_synonym box = "ndarray \<times> ndarray"

text \<open>
  The attributes of a \<^verbatim>\<open>MujocoEnv\<close> object. \<open>'r\<close> is the state of the \<^verbatim>\<open>Robot\<close> proxy
  (its noise generator, its buffers). \<open>sim\<close> and \<open>sim_obsd\<close> are two simulator objects,
  as the constructor builds them from a model path. \<open>spec\<close> is
  \<^verbatim>\<open>self.spec.max_episode_steps\<close>, absent for an environment that gym did not register.
\<close>

record 'r MujocoEnv =
  sim :: mjsim
  sim_obsd :: mjsim
  np_random :: nat
  mujoco_render_frames :: bool
  robot :: 'r
  frame_skip :: int
  act_normalized :: bool
  action_space :: box
  rwd_dict :: dict
  rwd_mode :: string
  rwd_keys :: "string list option"
  obs_dict :: dict
  obs_keys :: "string list"
  last_ctrl :: ndarray
  obs_dim :: nat
  observation_space :: box
  init_qpos :: ndarray
  init_qvel :: ndarray
  spec :: "nat option"

text \<open>
  What the class is built from, outside \<^verbatim>\<open>env_base.py\<close>:
  \<^item> the \<^verbatim>\<open>Robot\<close> proxy: its constructor and the four methods the adapter calls.
    \<open>Robot_step\<close> receives \<^verbatim>\<open>ctrl_desired\<close>, \<^verbatim>\<open>ctrl_normalized\<close>, \<^verbatim>\<open>step_duration\<close>,
    \<^verbatim>\<open>realTimeSim\<close> and whether a render callback is passed, and returns the control
    it applied, its new state and the advanced simulator; \<open>Robot_get_sensors\<close> reads
    the simulator and \<open>Robot_sensor2sim\<close> writes the simulator it is given, which is
    \<open>sim_obsd\<close>, a different object from \<open>sim\<close>;
  \<^item> the hooks \<^verbatim>\<open>get_obs_dict\<close> and \<^verbatim>\<open>get_reward_dict\<close> of a subclass, \<open>None\<close> where the
    subclass does not override the method of the base class;
  \<^item> the methods of the mixin \<^verbatim>\<open>ObsVecDict\<close>; \<^verbatim>\<open>expand_dims\<close> and \<^verbatim>\<open>squeeze_dims\<close> update
    the dictionary they are given in place;
  \<^item> \<^verbatim>\<open>gym.utils.seeding.np_random\<close>, the file system and the model loader.
\<close>

record 'r MujocoEnv_class =
  Robot_new :: "mjsim \<Rightarrow> nat \<Rightarrow> error + 'r"
  Robot_step :: "ndarray \<Rightarrow> bool \<Rightarrow> real \<Rightarrow> bool \<Rightarrow> bool \<Rightarrow> 'r \<Rightarrow> mjsim
                 \<Rightarrow> error + (ndarray \<times> 'r \<times> mjsim)"
  Robot_get_sensors :: "'r \<Rightarrow> mjsim \<Rightarrow> error + (dict \<times> 'r)"
  Robot_sensor2sim :: "dict \<Rightarrow> mjsim \<Rightarrow> error + mjsim"
  Robot_reset :: "ndarray \<Rightarrow> ndarray \<Rightarrow> 'r \<Rightarrow> mjsim \<Rightarrow> error + ('r \<times> mjsim)"
  override_get_obs_dict :: "(mjsim \<Rightarrow> error + dict) option"
  override_get_reward_dict :: "(dict \<Rightarrow> error + dict) option"
  obsdict2obsvec :: "dict \<Rightarrow> string list \<Rightarrow> error + (ndarray \<times> ndarray)"
  obsvec2obsdict :: "real list list list \<Rightarrow> error + dict"
  expand_dims :: "dict \<Rightarrow> dict"
  squeeze_dims :: "dict \<Rightarrow> dict"
  seeding_np_random :: "int option \<Rightarrow> nat \<times> int"
  assets_dir :: string
  path_exists :: "string \<Rightarrow> bool"
  load_model_from_path :: "string \<Rightarrow> error + mjsim"

subsection \<open>Methods to override\<close>

text \<open>The two methods as the base class defines them: both raise, whatever they get.\<close>

definition MujocoEnv_get_obs_dict :: "mjsim \<Rightarrow> error + dict" where
  "MujocoEnv_get_obs_dict sim_arg = Inl NotImplementedError"

definition MujocoEnv_get_reward_dict :: "dict \<Rightarrow> error + dict" where
  "MujocoEnv_get_reward_dict obs_dict_arg = Inl NotImplementedError"

text \<open>
  \<^verbatim>\<open>self.get_obs_dict(...)\<close> and \<^verbatim>\<open>self.get_reward_dict(...)\<close>: method lookup finds the
  subclass's method when there is one, the base class's otherwise.
\<close>

definition get_obs_dict :: "'r MujocoEnv_class \<Rightarrow> mjsim \<Rightarrow> error + dict" where
  "get_obs_dict cls sim_arg =
     (case override_get_obs_dict cls of
        None \<Rightarrow> MujocoEnv_get_obs_dict sim_arg
      | Some f \<Rightarrow> f sim_arg)"

definition get_reward_dict :: "'r MujocoEnv_class \<Rightarrow> dict \<Rightarrow> error + dict" where
  "get_reward_dict cls obs_dict_arg =
     (case override_get_reward_dict cls of
        None \<Rightarrow> MujocoEnv_get_reward_dict obs_dict_arg
      | Some f \<Rightarrow> f obs_dict_arg)"

subsection \<open>Stepping\<close>

text \<open>The property \<^verbatim>\<open>dt\<close>: \<^verbatim>\<open>self.sim.model.opt.timestep * self.frame_skip\<close>.\<close>

definition dt :: "'r MujocoEnv \<Rightarrow> real" where
  "dt self = model_opt_timestep (sim self) * real_of_int (frame_skip self)"

text \<open>
  \<^verbatim>\<open>get_obs\<close>: read the sensors, write them into the observed simulator, build the
  observation dictionary from it and flatten it.
\<close>

definition get_obs :: "'r MujocoEnv_class \<Rightarrow> 'r MujocoEnv \<Rightarrow> error + (ndarray \<times> 'r MujocoEnv)" where
  "get_obs cls self =
     (case Robot_get_sensors cls (robot self) (sim self) of
        Inl e \<Rightarrow> Inl e
      | Inr (sen, r) \<Rightarrow>
          (case Robot_sensor2sim cls sen (sim_obsd self) of
             Inl e \<Rightarrow> Inl e
           | Inr so \<Rightarrow>
               (case get_obs_dict cls so of
                  Inl e \<Rightarrow> Inl e
                | Inr od \<Rightarrow>
                    (case obsdict2obsvec cls od (obs_keys self) of
                       Inl e \<Rightarrow> Inl e
                     | Inr (t, obs) \<Rightarrow>
                         Inr (obs, self\<lparr>robot := r, sim_obsd := so, obs_dict := od\<rparr>)))))"

text \<open>
  The dictionary \<^verbatim>\<open>env_info\<close> that \<^verbatim>\<open>get_env_infos\<close> builds: its seven entries, and the
  lookup \<^verbatim>\<open>env_info[k]\<close>. Indexing an array with \<^verbatim>\<open>[()]\<close> returns its contents.
\<close>

record env_info =
  info_time :: ndarray
  info_rwd_dense :: ndarray
  info_rwd_sparse :: ndarray
  info_solved :: ndarray
  info_done :: ndarray
  info_obs_dict :: dict
  info_rwd_dict :: dict

definition env_info_getitem :: "env_info \<Rightarrow> string \<Rightarrow> error + pyval" where
  "env_info_getitem i k =
     (if k = ''time'' then Inr (Arr (info_time i))
      else if k = ''rwd_dense'' then Inr (Arr (info_rwd_dense i))
      else if k = ''rwd_sparse'' then Inr (Arr (info_rwd_sparse i))
      else if k = ''solved'' then Inr (Arr (info_solved i))
      else if k = ''done'' then Inr (Arr (info_done i))
      else if k = ''obs_dict'' then Inr (Dict (info_obs_dict i))
      else if k = ''rwd_dict'' then Inr (Dict (info_rwd_dict i))
      else Inl (KeyError k))"

definition get_env_infos :: "'r MujocoEnv \<Rightarrow> error + env_info" where
  "get_env_infos self =
     (case getitem (obs_dict self) ''t'' of
        Inl e \<Rightarrow> Inl e
      | Inr t \<Rightarrow>
     (case getitem (rwd_dict self) ''dense'' of
        Inl e \<Rightarrow> Inl e
      | Inr dense \<Rightarrow>
     (case getitem (rwd_dict self) ''sparse'' of
        Inl e \<Rightarrow> Inl e
      | Inr sparse \<Rightarrow>
     (case getitem (rwd_dict self) ''solved'' of
        Inl e \<Rightarrow> Inl e
      | Inr solved \<Rightarrow>
     (case getitem (rwd_dict self) ''done'' of
        Inl e \<Rightarrow> Inl e
      | Inr done \<Rightarrow>
          Inr \<lparr>info_time = t, info_rwd_dense = dense, info_rwd_sparse = sparse,
               info_solved = solved, info_done = done,
               info_obs_dict = obs_dict self, info_rwd_dict = rwd_dict self\<rparr>)))))"

text \<open>
  \<^verbatim>\<open>step\<close>, up to the comment \<^verbatim>\<open># finalize step\<close>: clip the action, let the robot
  advance the simulator, observe, and compute the reward dictionary from the observation
  dictionary. The result is the observation vector and the object as \<^verbatim>\<open>get_env_infos\<close>
  finds it.
\<close>

definition step_advance ::
  "'r MujocoEnv_class \<Rightarrow> 'r MujocoEnv \<Rightarrow> ndarray \<Rightarrow> error + (ndarray \<times> 'r MujocoEnv)" where
  "step_advance cls self a =
     (let a = np_clip a (- 1) 1 in
      case Robot_step cls a (act_normalized self) (dt self)
             (mujoco_render_frames self) (mujoco_render_frames self) (robot self) (sim self) of
        Inl e \<Rightarrow> Inl e
      | Inr (ctrl, r, s) \<Rightarrow>
          (case get_obs cls (self\<lparr>last_ctrl := ctrl, robot := r, sim := s\<rparr>) of
             Inl e \<Rightarrow> Inl e
           | Inr (obs, self1) \<Rightarrow>
               (let self2 = self1\<lparr>obs_dict := expand_dims cls (obs_dict self1)\<rparr> in
                case get_reward_dict cls (obs_dict self2) of
                  Inl e \<Rightarrow> Inl e
                | Inr rd \<Rightarrow>
                    (let self3 = self2\<lparr>rwd_dict := squeeze_dims cls rd\<rparr>;
                         self4 = self3\<lparr>obs_dict := squeeze_dims cls (obs_dict self3)\<rparr> in
                     Inr (obs, self4)))))"

text \<open>
  \<^verbatim>\<open>step\<close>: the above, then \<^verbatim>\<open>get_env_infos\<close> and the returned tuple
  \<^verbatim>\<open>(obs, env_info['rwd_' + rwd_mode], bool(env_info['done']), env_info)\<close>, together with
  the updated object.
\<close>

definition step ::
  "'r MujocoEnv_class \<Rightarrow> 'r MujocoEnv \<Rightarrow> ndarray
     \<Rightarrow> error + (ndarray \<times> pyval \<times> bool \<times> env_info \<times> 'r MujocoEnv)" where
  "step cls self a =
     (case step_advance cls self a of
        Inl e \<Rightarrow> Inl e
      | Inr (obs, self4) \<Rightarrow>
          (case get_env_infos self4 of
             Inl e \<Rightarrow> Inl e
           | Inr info \<Rightarrow>
               (case env_info_getitem info (''rwd_'' @ rwd_mode self4) of
                  Inl e \<Rightarrow> Inl e
                | Inr rwd \<Rightarrow>
                    (case py_bool (info_done info) of
                       Inl e \<Rightarrow> Inl e
                     | Inr d \<Rightarrow> Inr (obs, rwd, d, info, self4)))))"

subsection \<open>Construction\<close>

text \<open>
  \<^verbatim>\<open>get_sim(model_path, model_str)\<close>. The module never imports \<^verbatim>\<open>load_model_from_xml\<close>, so
  the branch of a model string raises \<^verbatim>\<open>NameError\<close>; a missing path has no
  \<^verbatim>\<open>startswith\<close>. \<open>assets_dir\<close> is \<^verbatim>\<open>os.path.join(os.path.dirname(__file__), "assets")\<close>.
\<close>

definition get_sim :: "'r MujocoEnv_class \<Rightarrow> string option \<Rightarrow> string option \<Rightarrow> error + mjsim" where
  "get_sim cls model_path model_str =
     (if model_str \<noteq> None \<and> model_str \<noteq> Some [] then Inl (NameError ''load_model_from_xml'')
      else
        (case model_path of
           None \<Rightarrow> Inl (AttributeError ''startswith'')
         | Some p \<Rightarrow>
             (let fullpath = (if take 1 p = ''/'' then p else assets_dir cls @ ''/'' @ p) in
              if \<not> path_exists cls fullpath then Inl (IOError fullpath)
              else load_model_from_path cls fullpath)))"

text \<open>\<^verbatim>\<open>seed\<close>: a new generator from \<^verbatim>\<open>gym.utils.seeding\<close>; returns the seed in a list.\<close>

definition seed :: "'r MujocoEnv_class \<Rightarrow> 'r MujocoEnv \<Rightarrow> int option \<Rightarrow> int list \<times> 'r MujocoEnv" where
  "seed cls self s = (case seeding_np_random cls s of (g, s') \<Rightarrow> ([s'], self\<lparr>np_random := g\<rparr>))"

text \<open>The keyword arguments of the constructor (the others go to the \<^verbatim>\<open>Robot\<close>).\<close>

record init_args =
  arg_sim :: "mjsim option"
  arg_sim_obsd :: "mjsim option"
  arg_model_path :: "string option"
  arg_frame_skip :: int
  arg_obs_keys :: "string list"
  arg_rwd_keys :: "string list option"
  arg_rwd_mode :: string
  arg_act_normalized :: bool
  arg_seed :: "int option"
  arg_obs_range :: "real \<times> real"

text \<open>
  \<^verbatim>\<open>__init__\<close>, first part (up to \<^verbatim>\<open>ObsVecDict.__init__(self)\<close>): resolve the two
  simulators, seed, build the robot, the action space and the empty dictionaries. The
  attributes that the second part assigns (\<open>obs_dim\<close>, \<open>observation_space\<close>, \<open>init_qpos\<close>,
  \<open>init_qvel\<close>) and \<open>last_ctrl\<close> do not exist yet; the record holds empty values for them,
  which nothing reads before they are assigned.
\<close>

definition resolve_sim :: "'r MujocoEnv_class \<Rightarrow> init_args \<Rightarrow> error + (mjsim \<times> mjsim)" where
  "resolve_sim cls args =
     (case arg_sim args of
        None \<Rightarrow>
          (case get_sim cls (arg_model_path args) None of
             Inl e \<Rightarrow> Inl e
           | Inr s \<Rightarrow>
               (case get_sim cls (arg_model_path args) None of
                  Inl e \<Rightarrow> Inl e
                | Inr so \<Rightarrow> Inr (s, so)))
      | Some s \<Rightarrow>
          (case arg_sim_obsd args of
             None \<Rightarrow> Inl (AssertionError
               ''sim and sim_obsd needs to be specified together, else model_path should be provided'')
           | Some so \<Rightarrow> Inr (s, so)))"

definition init_attributes :: "'r MujocoEnv_class \<Rightarrow> init_args \<Rightarrow> error + 'r MujocoEnv" where
  "init_attributes cls args =
     (case resolve_sim cls args of
        Inl e \<Rightarrow> Inl e
      | Inr (s, so) \<Rightarrow>
          (case seeding_np_random cls (arg_seed args) of
             (g, s') \<Rightarrow>
               (case Robot_new cls s g of
                  Inl e \<Rightarrow> Inl e
                | Inr r \<Rightarrow>
                    Inr \<lparr>sim = s, sim_obsd = so, np_random = g, mujoco_render_frames = False,
                         robot = r, frame_skip = arg_frame_skip args,
                         act_normalized = arg_act_normalized args,
                         action_space =
                           (if arg_act_normalized args
                            then (replicate (model_nu s) (- 1), replicate (model_nu s) 1)
                            else (map fst (model_actuator_ctrlrange s),
                                  map snd (model_actuator_ctrlrange s))),
                         rwd_dict = Map.empty, rwd_mode = arg_rwd_mode args,
                         rwd_keys = arg_rwd_keys args,
                         obs_dict = Map.empty, obs_keys = arg_obs_keys args,
                         last_ctrl = [], obs_dim = 0, observation_space = ([], []),
                         init_qpos = [], init_qvel = [], spec = None\<rparr>)))"

text \<open>
  \<^verbatim>\<open>__init__\<close>, second part: one step with the zero action, the assertion that it is not
  done, the size of its observation, and the pose and velocity of the simulator after it.
\<close>

definition MujocoEnv_init :: "'r MujocoEnv_class \<Rightarrow> init_args \<Rightarrow> error + 'r MujocoEnv" where
  "MujocoEnv_init cls args =
     (case init_attributes cls args of
        Inl e \<Rightarrow> Inl e
      | Inr self0 \<Rightarrow>
          (case step cls self0 (replicate (model_nu (sim self0)) 0) of
             Inl e \<Rightarrow> Inl e
           | Inr (observation, reward, done, info, self1) \<Rightarrow>
               if done
               then Inl (AssertionError ''Checking initialization. Simulation starts in a done state.'')
               else Inr (self1\<lparr>obs_dim := length observation,
                           observation_space :=
                             (replicate (length observation) (fst (arg_obs_range args)),
                              replicate (length observation) (snd (arg_obs_range args))),
                           init_qpos := data_qpos (sim self1),
                           init_qvel := data_qvel (sim self1)\<rparr>)))"

subsection \<open>Reset and state utilities\<close>

definition reset ::
  "'r MujocoEnv_class \<Rightarrow> 'r MujocoEnv \<Rightarrow> ndarray option \<Rightarrow> ndarray option
     \<Rightarrow> error + (ndarray \<times> 'r MujocoEnv)" where
  "reset cls self reset_qpos reset_qvel =
     (let qpos = (case reset_qpos of None \<Rightarrow> init_qpos self | Some q \<Rightarrow> q);
          qvel = (case reset_qvel of None \<Rightarrow> init_qvel self | Some v \<Rightarrow> v) in
      case Robot_reset cls qpos qvel (robot self) (sim self) of
        Inl e \<Rightarrow> Inl e
      | Inr (r, s) \<Rightarrow> get_obs cls (self\<lparr>robot := r, sim := s\<rparr>))"


definition get_env_state :: "'r MujocoEnv \<Rightarrow> dict" where
  "get_env_state self =
     [''qpos'' \<mapsto> data_qpos (sim self),
      ''qvel'' \<mapsto> data_qvel (sim self),
      ''mocap_pos'' \<mapsto> data_mocap_pos (sim self),
      ''mocap_quat'' \<mapsto> data_mocap_quat (sim self),
      ''site_pos'' \<mapsto> model_site_pos (sim self),
      ''body_pos'' \<mapsto> model_body_pos (sim self)]"

subsection \<open>Methods on paths\<close>


text \<open>
  A trajectory, as \<^verbatim>\<open>evaluate_success\<close> reads it: \<^verbatim>\<open>path['env_infos']\<close> with the per-step
  flags \<^verbatim>\<open>solved\<close> and the per-step rewards.
\<close>

record path_env_infos =
  solved :: "bool list"
  rwd_sparse :: "real list"
  rwd_dense :: "real list"










subsection \<open>Collaborators described by the specification\<close>

text \<open>
  Modelled from the spec: \<^verbatim>\<open>Robot.reset\<close> of \<^verbatim>\<open>mj_envs/robot/robot.py\<close>, which is not
  among the sources. The specification says of the robot that it "supports
  pose/velocity reset" and of the episode state that the initial pose and velocity are
  "restored on reset": the simulator gets the requested pose and velocity.
\<close>

definition spec_Robot_reset :: "ndarray \<Rightarrow> ndarray \<Rightarrow> 'r \<Rightarrow> mjsim \<Rightarrow> error + ('r \<times> mjsim)" where
  "spec_Robot_reset qp qv r s = Inr (r, s\<lparr>data_qpos := qp, data_qvel := qv\<rparr>)"

text \<open>
  Modelled from the spec: \<^verbatim>\<open>ObsVecDict.obsdict2obsvec\<close> of
  \<^verbatim>\<open>mj_envs/utils/obj_vec_dict.py\<close>, which is not among the sources. The specification
  says that the observation dictionary "must always include t" and that the "order of
  flattening is fixed by a configured list of keys": the vector is the concatenation of
  the entries of the configured keys, in their order.
\<close>

fun flatten_keys :: "dict \<Rightarrow> string list \<Rightarrow> error + ndarray" where
  "flatten_keys d [] = Inr []"
| "flatten_keys d (k # ks) =
     (case getitem d k of
        Inl e \<Rightarrow> Inl e
      | Inr v \<Rightarrow> (case flatten_keys d ks of Inl e \<Rightarrow> Inl e | Inr vs \<Rightarrow> Inr (v @ vs)))"

definition spec_obsdict2obsvec :: "dict \<Rightarrow> string list \<Rightarrow> error + (ndarray \<times> ndarray)" where
  "spec_obsdict2obsvec d keys =
     (case getitem d ''t'' of
        Inl e \<Rightarrow> Inl e
      | Inr t \<Rightarrow> (case flatten_keys d keys of Inl e \<Rightarrow> Inl e | Inr v \<Rightarrow> Inr (t, v)))"

subsection \<open>A point-mass subclass\<close>

text \<open>
  A small subclass on which the methods can be run: two joints whose velocity is the
  control and whose position integrates it over \<^verbatim>\<open>dt\<close>; the sensors read time, pose and
  velocity exactly; the observation is the total displacement and the total velocity;
  the reward is minus the displacement, the task is solved from a displacement of 2 on
  and done from 3 on.
\<close>

definition point_sim :: mjsim where
  "point_sim =
     \<lparr>model_nq = 2, model_nv = 2, model_nu = 2, model_opt_timestep = 1,
      model_actuator_ctrlrange = [(- 1, 1), (- 1, 1)],
      model_site_pos = [], model_body_pos = [],
      data_time = 0, data_qpos = [0, 0], data_qvel = [0, 0], data_act = [],
      data_udd_state = Map.empty, data_mocap_pos = [], data_mocap_quat = []\<rparr>"

definition point_Robot_step ::
  "ndarray \<Rightarrow> bool \<Rightarrow> real \<Rightarrow> bool \<Rightarrow> bool \<Rightarrow> unit \<Rightarrow> mjsim \<Rightarrow> error + (ndarray \<times> unit \<times> mjsim)" where
  "point_Robot_step a normalized duration real_time render r s =
     Inr (a, r, s\<lparr>data_time := data_time s + duration,
                  data_qpos := map2 (\<lambda>q u. q + duration * u) (data_qpos s) a,
                  data_qvel := a\<rparr>)"

definition point_get_sensors :: "unit \<Rightarrow> mjsim \<Rightarrow> error + (dict \<times> unit)" where
  "point_get_sensors r s =
     Inr ([''time'' \<mapsto> [data_time s], ''qpos'' \<mapsto> data_qpos s, ''qvel'' \<mapsto> data_qvel s], r)"

definition point_sensor2sim :: "dict \<Rightarrow> mjsim \<Rightarrow> error + mjsim" where
  "point_sensor2sim sen so =
     (case sen ''time'' of
        Some [t] \<Rightarrow>
          (case sen ''qpos'' of
             Some qp \<Rightarrow>
               (case sen ''qvel'' of
                  Some qv \<Rightarrow> Inr (so\<lparr>data_time := t, data_qpos := qp, data_qvel := qv\<rparr>)
                | None \<Rightarrow> Inl (KeyError ''qvel''))
           | None \<Rightarrow> Inl (KeyError ''qpos''))
      | _ \<Rightarrow> Inl (KeyError ''time''))"

definition point_obs_dict :: "real \<Rightarrow> real \<Rightarrow> real \<Rightarrow> dict" where
  "point_obs_dict t p v = [''t'' \<mapsto> [t], ''pos'' \<mapsto> [p], ''vel'' \<mapsto> [v]]"

definition point_get_obs_dict :: "mjsim \<Rightarrow> error + dict" where
  "point_get_obs_dict s =
     Inr (point_obs_dict (data_time s) (sum_list (data_qpos s)) (sum_list (data_qvel s)))"

definition point_rwd_dict :: "real \<Rightarrow> real \<Rightarrow> real \<Rightarrow> real \<Rightarrow> dict" where
  "point_rwd_dict dense sparse slv dn =
     [''dense'' \<mapsto> [dense], ''sparse'' \<mapsto> [sparse], ''solved'' \<mapsto> [slv], ''done'' \<mapsto> [dn]]"

definition point_get_reward_dict :: "dict \<Rightarrow> error + dict" where
  "point_get_reward_dict od =
     (case od ''pos'' of
        Some [p] \<Rightarrow>
          Inr (point_rwd_dict (- p) (if 2 \<le> p then 1 else 0) (if 2 \<le> p then 1 else 0)
                 (if 3 \<le> p then 1 else 0))
      | _ \<Rightarrow> Inl (KeyError ''pos''))"

definition point_class :: "unit MujocoEnv_class" where
  "point_class =
     \<lparr>Robot_new = (\<lambda>s g. Inr ()),
      Robot_step = point_Robot_step,
      Robot_get_sensors = point_get_sensors,
      Robot_sensor2sim = point_sensor2sim,
      Robot_reset = spec_Robot_reset,
      override_get_obs_dict = Some point_get_obs_dict,
      override_get_reward_dict = Some point_get_reward_dict,
      obsdict2obsvec = spec_obsdict2obsvec,
      obsvec2obsdict = (\<lambda>observations. Inr [''pos'' \<mapsto> map sum_list (concat observations)]),
      expand_dims = (\<lambda>d. d),
      squeeze_dims = (\<lambda>d. d),
      seeding_np_random = (\<lambda>s. case s of None \<Rightarrow> (0, 0) | Some n \<Rightarrow> (nat \<bar>n\<bar>, n)),
      assets_dir = ''/mj_envs/envs/assets'',
      path_exists = (\<lambda>p. p = ''/mj_envs/envs/assets/point.xml''),
      load_model_from_path = (\<lambda>p. Inr point_sim)\<rparr>"

definition point_args :: init_args where
  "point_args =
     \<lparr>arg_sim = Some point_sim, arg_sim_obsd = Some point_sim, arg_model_path = None,
      arg_frame_skip = 1, arg_obs_keys = [''pos'', ''vel''], arg_rwd_keys = None,
      arg_rwd_mode = ''dense'', arg_act_normalized = True, arg_seed = None,
      arg_obs_range = (- 10, 10)\<rparr>"

text \<open>
  The object that the first part of the constructor builds from \<open>point_args\<close>, and
  the object that the whole constructor returns.
\<close>

definition point_env0 :: "unit MujocoEnv" where
  "point_env0 =
     \<lparr>sim = point_sim, sim_obsd = point_sim,
      np_random = 0, mujoco_render_frames = False, robot = (), frame_skip = 1,
      act_normalized = True, action_space = ([- 1, - 1], [1, 1]),
      rwd_dict = Map.empty, rwd_mode = ''dense'', rwd_keys = None,
      obs_dict = Map.empty, obs_keys = [''pos'', ''vel''],
      last_ctrl = [], obs_dim = 0, observation_space = ([], []),
      init_qpos = [], init_qvel = [], spec = None\<rparr>"

definition point_env :: "unit MujocoEnv" where
  "point_env =
     point_env0
       \<lparr>sim := point_sim\<lparr>data_time := 1\<rparr>, sim_obsd := point_sim\<lparr>data_time := 1\<rparr>,
        rwd_dict := point_rwd_dict 0 0 0 0, obs_dict := point_obs_dict 1 0 0,
        last_ctrl := [0, 0], obs_dim := 2, observation_space := ([- 10, - 10], [10, 10]),
        init_qpos := [0, 0], init_qvel := [0, 0]\<rparr>"

text \<open>The point mass at pose \<open>qp\<close> with velocity \<open>qv\<close>, later in the episode.\<close>

definition point_env_at :: "ndarray \<Rightarrow> ndarray \<Rightarrow> unit MujocoEnv" where
  "point_env_at qp qv = point_env\<lparr>sim := (sim point_env)\<lparr>data_qpos := qp, data_qvel := qv\<rparr>\<rparr>"


text \<open>The base class itself: the point mass without the two hooks.\<close>

definition base_class :: "unit MujocoEnv_class" where
  "base_class =
     point_class\<lparr>override_get_obs_dict := None, override_get_reward_dict := None\<rparr>"

text \<open>A subclass whose reward hook forgets the entry \<^verbatim>\<open>solved\<close>.\<close>

definition unsolved_class :: "unit MujocoEnv_class" where
  "unsolved_class =
     point_class\<lparr>override_get_reward_dict :=
       Some (\<lambda>od. Inr [''dense'' \<mapsto> [0], ''sparse'' \<mapsto> [0], ''done'' \<mapsto> [0]])\<rparr>"





section \<open>Properties\<close>

subsection \<open>Unfolding and running the methods\<close>

lemmas point_defs = point_class_def point_Robot_step_def point_get_sensors_def
  point_sensor2sim_def point_get_obs_dict_def point_get_reward_dict_def point_sim_def
  point_args_def point_obs_dict_def point_rwd_dict_def point_env_def point_env0_def
  point_env_at_def

lemmas method_defs = MujocoEnv_init_def init_attributes_def resolve_sim_def step_def
  step_advance_def get_obs_def dt_def get_obs_dict_def get_reward_dict_def
  spec_obsdict2obsvec_def getitem_def get_env_infos_def env_info_getitem_def np_clip_def
  Let_def

lemma replicate_2: "replicate 2 x = [x, x]"
  by (simp add: numeral_2_eq_2)

text \<open>The constructor, run on the point mass.\<close>

lemma point_init_attributes: "init_attributes point_class point_args = Inr point_env0"
  by (simp add: method_defs point_defs replicate_2)

lemma point_init: "MujocoEnv_init point_class point_args = Inr point_env"
  by (simp add: method_defs point_defs replicate_2)

text \<open>
  One step of the point mass from pose \<open>[1, 1]\<close> with the action \<open>[1, 1]\<close>: the
  displacement reaches 4 and the episode is done.
\<close>

lemma point_step_done:
  "step point_class (point_env_at [1, 1] [1, 1]) [1, 1] =
    Inr ([4, 2], Arr [- 4], True,
         \<lparr>info_time = [2], info_rwd_dense = [- 4], info_rwd_sparse = [1], info_solved = [1],
          info_done = [1], info_obs_dict = point_obs_dict 2 4 2,
          info_rwd_dict = point_rwd_dict (- 4) 1 1 1\<rparr>,
         point_env\<lparr>sim := point_sim\<lparr>data_time := 2, data_qpos := [2, 2], data_qvel := [1, 1]\<rparr>,
                   sim_obsd := point_sim\<lparr>data_time := 2, data_qpos := [2, 2], data_qvel := [1, 1]\<rparr>,
                   rwd_dict := point_rwd_dict (- 4) 1 1 1, obs_dict := point_obs_dict 2 4 2,
                   last_ctrl := [1, 1]\<rparr>)"
  by (simp add: method_defs point_defs)

subsection \<open>What a successful call went through\<close>

lemma step_Inr_advance:
  "step cls self a = Inr (obs, rwd, d, info, self') \<Longrightarrow> step_advance cls self a = Inr (obs, self')"
  by (auto simp: step_def split: sum.splits prod.splits)

lemma step_Inr_infos:
  "step cls self a = Inr (obs, rwd, d, info, self') \<Longrightarrow>
   get_env_infos self' = Inr info \<and> py_bool (info_done info) = Inr d"
  by (auto simp: step_def split: sum.splits prod.splits)

lemma step_advance_Inr:
  assumes "step_advance cls self a = Inr (obs, self')"
  shows "\<exists>ctrl r s self1 rd.
           Robot_step cls (np_clip a (- 1) 1) (act_normalized self) (dt self)
             (mujoco_render_frames self) (mujoco_render_frames self) (robot self) (sim self)
             = Inr (ctrl, r, s) \<and>
           get_obs cls (self\<lparr>last_ctrl := ctrl, robot := r, sim := s\<rparr>) = Inr (obs, self1) \<and>
           get_reward_dict cls (expand_dims cls (obs_dict self1)) = Inr rd \<and>
           self' = self1\<lparr>obs_dict := expand_dims cls (obs_dict self1)\<rparr>
                        \<lparr>rwd_dict := squeeze_dims cls rd\<rparr>
                        \<lparr>obs_dict := squeeze_dims cls (expand_dims cls (obs_dict self1))\<rparr>"
  using assms
  by (simp add: step_advance_def Let_def split: sum.splits prod.splits)

lemma get_obs_Inr:
  assumes "get_obs cls self = Inr (obs, self')"
  shows "\<exists>sen r so od t.
           Robot_get_sensors cls (robot self) (sim self) = Inr (sen, r) \<and>
           Robot_sensor2sim cls sen (sim_obsd self) = Inr so \<and>
           get_obs_dict cls so = Inr od \<and>
           obsdict2obsvec cls od (obs_keys self) = Inr (t, obs) \<and>
           self' = self\<lparr>robot := r, sim_obsd := so, obs_dict := od\<rparr>"
  using assms
  by (simp add: get_obs_def split: sum.splits prod.splits)

lemma get_obs_unchanged:
  "get_obs cls self = Inr (obs, self') \<Longrightarrow>
   sim self' = sim self \<and> last_ctrl self' = last_ctrl self \<and>
   init_qpos self' = init_qpos self \<and> init_qvel self' = init_qvel self"
  by (auto dest!: get_obs_Inr)


lemma step_advance_rwd_dict:
  "step_advance cls self a = Inr (obs, self') \<Longrightarrow>
   \<exists>od rd. get_reward_dict cls od = Inr rd \<and> rwd_dict self' = squeeze_dims cls rd"
  by (fastforce dest!: step_advance_Inr)

lemma get_env_infos_done:
  "get_env_infos self = Inr info \<Longrightarrow>
   rwd_dict self ''done'' = Some (info_done info) \<and> info_rwd_dict info = rwd_dict self"
  by (auto simp: get_env_infos_def getitem_def split: option.splits)

lemma get_env_infos_missing:
  assumes "k \<in> {''dense'', ''sparse'', ''solved'', ''done''}" and "rwd_dict self k = None"
  shows "\<exists>k'. get_env_infos self = Inl (KeyError k') \<and>
           (k' = ''t'' \<and> obs_dict self ''t'' = None \<or>
            k' \<in> {''dense'', ''sparse'', ''solved'', ''done''} \<and> rwd_dict self k' = None)"
  using assms
  by (auto simp: get_env_infos_def getitem_def split: option.splits)

lemma py_bool_Inr: "py_bool v = Inr d \<Longrightarrow> d = (\<exists>x. v = [x] \<and> x \<noteq> 0)"
  by (cases v rule: py_bool.cases) auto


lemma MujocoEnv_init_Inr:
  assumes "MujocoEnv_init cls args = Inr self"
  shows "\<exists>self0 obs rwd info self1.
           init_attributes cls args = Inr self0 \<and>
           step cls self0 (replicate (model_nu (sim self0)) 0) = Inr (obs, rwd, False, info, self1) \<and>
           self = self1\<lparr>obs_dim := length obs,
                        observation_space :=
                          (replicate (length obs) (fst (arg_obs_range args)),
                           replicate (length obs) (snd (arg_obs_range args))),
                        init_qpos := data_qpos (sim self1),
                        init_qvel := data_qvel (sim self1)\<rparr>"
  using assms
  by (simp add: MujocoEnv_init_def split: sum.splits prod.splits if_splits)

subsection \<open>Clipping\<close>






subsection \<open>Termination of an episode\<close>

text \<open>
  C2. When \<^verbatim>\<open>step\<close> returns, the reward dictionary it has stored (the result of the
  reward hook, after \<^verbatim>\<open>squeeze_dims\<close>) has an entry \<^verbatim>\<open>done\<close>, the returned flag is the truth
  value of that entry, and it is true exactly when the entry is a single non-zero value.
  Nothing else enters the flag.
\<close>

theorem step_done_iff_reward_done:
  assumes "step cls self a = Inr (obs, rwd, d, info, self')"
  shows "\<exists>v. rwd_dict self' ''done'' = Some v \<and> py_bool v = Inr d \<and>
             d = (\<exists>x. v = [x] \<and> x \<noteq> 0) \<and>
             info_rwd_dict info = rwd_dict self' \<and>
             (\<exists>od rd. get_reward_dict cls od = Inr rd \<and> rwd_dict self' = squeeze_dims cls rd)"
proof -
  from assms have adv: "step_advance cls self a = Inr (obs, self')"
    by (rule step_Inr_advance)
  from step_Inr_infos [OF assms]
  have infos: "get_env_infos self' = Inr info" and flag: "py_bool (info_done info) = Inr d"
    by simp_all
  from get_env_infos_done [OF infos] flag py_bool_Inr [OF flag] step_advance_rwd_dict [OF adv]
  show ?thesis by auto
qed

theorem step_done_iff_reward_done_witness:
  "map_sum id (fst \<circ> snd \<circ> snd) (step point_class (point_env_at [1, 1] [1, 1]) [1, 1]) = Inr True \<and>
   map_sum id (\<lambda>r. rwd_dict (snd (snd (snd (snd r)))) ''done'')
     (step point_class (point_env_at [1, 1] [1, 1]) [1, 1]) = Inr (Some [1]) \<and>
   py_bool [1] = Inr True \<and>
   map_sum id (fst \<circ> snd \<circ> snd) (step point_class point_env [1, 1]) = Inr False \<and>
   map_sum id (\<lambda>r. rwd_dict (snd (snd (snd (snd r)))) ''done'')
     (step point_class point_env [1, 1]) = Inr (Some [0]) \<and>
   py_bool [0] = Inr False"
proof -
  have other: "map_sum id (fst \<circ> snd \<circ> snd) (step point_class point_env [1, 1]) = Inr False \<and>
    map_sum id (\<lambda>r. rwd_dict (snd (snd (snd (snd r)))) ''done'')
     (step point_class point_env [1, 1]) = Inr (Some [0])"
    by (simp add: method_defs point_defs)
  from step_done_iff_reward_done [OF point_step_done] point_step_done other
  show ?thesis by (simp add: point_rwd_dict_def)
qed

subsection \<open>Size of the observation\<close>








subsection \<open>Success evaluation\<close>






subsection \<open>Reset and state round trip\<close>

text \<open>
  C5. With a robot whose \<^verbatim>\<open>reset\<close> puts the requested pose and velocity into the
  simulator, a returning \<^verbatim>\<open>reset()\<close> without arguments leaves the simulator with the
  pose \<^verbatim>\<open>init_qpos\<close> and the velocity \<^verbatim>\<open>init_qvel\<close> of the object, as \<^verbatim>\<open>get_env_state\<close> and
  \<^verbatim>\<open>sim.get_state()\<close> read them; the recorded vectors themselves are unchanged.
\<close>

theorem reset_restores_initial_state:
  assumes "Robot_reset cls = spec_Robot_reset"
      and "reset cls self None None = Inr (obs, self')"
  shows "get_env_state self' ''qpos'' = Some (init_qpos self) \<and>
         get_env_state self' ''qvel'' = Some (init_qvel self) \<and>
         state_qpos (sim_get_state (sim self')) = init_qpos self \<and>
         state_qvel (sim_get_state (sim self')) = init_qvel self \<and>
         init_qpos self' = init_qpos self \<and> init_qvel self' = init_qvel self"
proof -
  from assms have
    "get_obs cls (self\<lparr>robot := robot self,
        sim := (sim self)\<lparr>data_qpos := init_qpos self, data_qvel := init_qvel self\<rparr>\<rparr>)
     = Inr (obs, self')"
    by (simp add: reset_def spec_Robot_reset_def)
  from get_obs_unchanged [OF this] show ?thesis
    by (simp add: get_env_state_def sim_get_state_def)
qed

theorem reset_restores_initial_state_witness:
  "Robot_reset point_class = spec_Robot_reset \<and>
   reset point_class (point_env_at [2, 1] [1, 1]) None None = Inr ([0, 0], point_env) \<and>
   get_env_state (point_env_at [2, 1] [1, 1]) ''qpos'' = Some [2, 1] \<and>
   get_env_state point_env ''qpos'' = Some [0, 0] \<and>
   get_env_state point_env ''qvel'' = Some [0, 0] \<and>
   init_qpos (point_env_at [2, 1] [1, 1]) = [0, 0] \<and>
   init_qvel (point_env_at [2, 1] [1, 1]) = [0, 0]"
proof -
  have r: "Robot_reset point_class = spec_Robot_reset"
    by (simp add: point_class_def)
  have o: "reset point_class (point_env_at [2, 1] [1, 1]) None None = Inr ([0, 0], point_env)"
    by (simp add: reset_def spec_Robot_reset_def method_defs point_defs)
  from reset_restores_initial_state [OF r o] r o show ?thesis
    by (simp add: point_env_at_def point_env_def point_env0_def get_env_state_def)
qed



subsection \<open>Unimplemented hooks\<close>

text \<open>
  C7. When a subclass overrides neither hook, a call of \<^verbatim>\<open>get_obs_dict\<close> or of
  \<^verbatim>\<open>get_reward_dict\<close> reaches the method of the base class and raises
  \<^verbatim>\<open>NotImplementedError\<close>, whatever the simulator or the observation dictionary is.
\<close>

theorem hooks_not_overridden_raise:
  "(override_get_obs_dict cls = None \<longrightarrow> get_obs_dict cls sim_arg = Inl NotImplementedError) \<and>
   (override_get_reward_dict cls = None \<longrightarrow> get_reward_dict cls od = Inl NotImplementedError)"
  by (simp add: get_obs_dict_def get_reward_dict_def MujocoEnv_get_obs_dict_def
      MujocoEnv_get_reward_dict_def)

theorem hooks_not_overridden_raise_witness:
  "override_get_obs_dict base_class = None \<and>
   override_get_reward_dict base_class = None \<and>
   get_obs_dict base_class point_sim = Inl NotImplementedError \<and>
   get_reward_dict base_class (point_obs_dict 0 0 0) = Inl NotImplementedError \<and>
   step base_class point_env [0, 0] = Inl NotImplementedError"
  using hooks_not_overridden_raise [of base_class point_sim "point_obs_dict 0 0 0"]
  by (simp add: base_class_def method_defs point_defs MujocoEnv_get_obs_dict_def)

subsection \<open>Missing reward keys\<close>

text \<open>
  C8. Let \<^verbatim>\<open>step\<close> have computed its reward dictionary (the result of the reward hook,
  after \<^verbatim>\<open>squeeze_dims\<close>), and let one of the keys \<^verbatim>\<open>dense\<close>, \<^verbatim>\<open>sparse\<close>, \<^verbatim>\<open>solved\<close>, \<^verbatim>\<open>done\<close> be
  missing from it. Then \<^verbatim>\<open>step\<close> returns nothing: it raises \<^verbatim>\<open>KeyError\<close> with the name of a
  key that is missing (one of the four, or \<^verbatim>\<open>t\<close> when the observation dictionary lacks
  it).
\<close>

theorem step_missing_reward_key:
  assumes "step_advance cls self a = Inr (obs, self4)"
      and "k \<in> {''dense'', ''sparse'', ''solved'', ''done''}"
      and "rwd_dict self4 k = None"
  shows "(\<exists>od rd. get_reward_dict cls od = Inr rd \<and> rwd_dict self4 = squeeze_dims cls rd) \<and>
         (\<exists>k'. step cls self a = Inl (KeyError k') \<and>
            (k' = ''t'' \<and> obs_dict self4 ''t'' = None \<or>
             k' \<in> {''dense'', ''sparse'', ''solved'', ''done''} \<and> rwd_dict self4 k' = None))"
proof -
  from get_env_infos_missing [OF assms(2,3)] obtain k' where
    "get_env_infos self4 = Inl (KeyError k')" and
    "k' = ''t'' \<and> obs_dict self4 ''t'' = None \<or>
     k' \<in> {''dense'', ''sparse'', ''solved'', ''done''} \<and> rwd_dict self4 k' = None"
    by blast
  with assms(1) have "\<exists>k'. step cls self a = Inl (KeyError k') \<and>
            (k' = ''t'' \<and> obs_dict self4 ''t'' = None \<or>
             k' \<in> {''dense'', ''sparse'', ''solved'', ''done''} \<and> rwd_dict self4 k' = None)"
    by (simp add: step_def)
  with step_advance_rwd_dict [OF assms(1)] show ?thesis by blast
qed

theorem step_missing_reward_key_witness:
  "step_advance unsolved_class point_env [0, 0] =
     Inr ([0, 0], point_env\<lparr>sim := point_sim\<lparr>data_time := 2\<rparr>,
                            sim_obsd := point_sim\<lparr>data_time := 2\<rparr>,
                            rwd_dict := [''dense'' \<mapsto> [0], ''sparse'' \<mapsto> [0], ''done'' \<mapsto> [0]],
                            obs_dict := point_obs_dict 2 0 0\<rparr>) \<and>
   ''solved'' \<in> {''dense'', ''sparse'', ''solved'', ''done''} \<and>
   [''dense'' \<mapsto> [0::real], ''sparse'' \<mapsto> [0], ''done'' \<mapsto> [0]] ''solved'' = None \<and>
   step unsolved_class point_env [0, 0] = Inl (KeyError ''solved'')"
proof -
  let ?self4 = "point_env\<lparr>sim := point_sim\<lparr>data_time := 2\<rparr>,
                            sim_obsd := point_sim\<lparr>data_time := 2\<rparr>,
                            rwd_dict := [''dense'' \<mapsto> [0], ''sparse'' \<mapsto> [0], ''done'' \<mapsto> [0]],
                            obs_dict := point_obs_dict 2 0 0\<rparr>"
  have adv: "step_advance unsolved_class point_env [0, 0] = Inr ([0, 0], ?self4)"
    by (simp add: method_defs point_defs unsolved_class_def)
  have k: "''solved'' \<in> {''dense'', ''sparse'', ''solved'', ''done''}"
    by simp
  have none: "rwd_dict ?self4 ''solved'' = None"
    by simp
  from step_missing_reward_key [OF adv k none] adv show ?thesis
    by (auto simp: point_defs)
qed

subsection \<open>Rewards of paths\<close>



subsection \<open>Construction\<close>

text \<open>
  C10. After the first part of the constructor, the constructor takes one step with
  the zero action. If that step reports done, the constructor raises the assertion
  failure. If the constructor returns an object, that step returned with the flag
  false; the simulator of the object is the one that step left; \<^verbatim>\<open>init_qpos\<close> and
  \<^verbatim>\<open>init_qvel\<close> are its pose and velocity; \<^verbatim>\<open>obs_dim\<close> is the size of that step's
  observation; the entry \<^verbatim>\<open>done\<close> of the object's reward dictionary is false; and
  \<^verbatim>\<open>reset()\<close> hands that pose and velocity to the robot.
\<close>

theorem init_steps_before_recording:
  assumes "init_attributes cls args = Inr self0"
  shows "(\<forall>obs rwd info self1.
            step cls self0 (replicate (model_nu (sim self0)) 0)
              = Inr (obs, rwd, True, info, self1) \<longrightarrow>
            MujocoEnv_init cls args =
              Inl (AssertionError ''Checking initialization. Simulation starts in a done state.'')) \<and>
         (\<forall>self. MujocoEnv_init cls args = Inr self \<longrightarrow>
            (\<exists>obs rwd info self1.
               step cls self0 (replicate (model_nu (sim self0)) 0)
                 = Inr (obs, rwd, False, info, self1) \<and>
               sim self = sim self1 \<and>
               init_qpos self = data_qpos (sim self1) \<and>
               init_qvel self = data_qvel (sim self1) \<and>
               obs_dim self = length obs \<and>
               (\<exists>v. rwd_dict self ''done'' = Some v \<and> py_bool v = Inr False) \<and>
               reset cls self None None =
                 (case Robot_reset cls (data_qpos (sim self1)) (data_qvel (sim self1))
                         (robot self) (sim self) of
                    Inl e \<Rightarrow> Inl e
                  | Inr (r, s) \<Rightarrow> get_obs cls (self\<lparr>robot := r, sim := s\<rparr>))))"
proof (intro conjI allI impI)
  fix obs rwd info self1
  assume "step cls self0 (replicate (model_nu (sim self0)) 0) = Inr (obs, rwd, True, info, self1)"
  with assms show "MujocoEnv_init cls args =
     Inl (AssertionError ''Checking initialization. Simulation starts in a done state.'')"
    by (simp add: MujocoEnv_init_def)
next
  fix self
  assume init: "MujocoEnv_init cls args = Inr self"
  from MujocoEnv_init_Inr [OF init] assms obtain obs rwd info self1 where
    step0: "step cls self0 (replicate (model_nu (sim self0)) 0)
              = Inr (obs, rwd, False, info, self1)" and
    self: "self = self1\<lparr>obs_dim := length obs,
                        observation_space :=
                          (replicate (length obs) (fst (arg_obs_range args)),
                           replicate (length obs) (snd (arg_obs_range args))),
                        init_qpos := data_qpos (sim self1),
                        init_qvel := data_qvel (sim self1)\<rparr>"
    by auto
  from step_Inr_infos [OF step0] get_env_infos_done [of self1 info]
  have dn: "\<exists>v. rwd_dict self1 ''done'' = Some v \<and> py_bool v = Inr False"
    by auto
  from step0 self dn
  show "\<exists>obs rwd info self1.
               step cls self0 (replicate (model_nu (sim self0)) 0)
                 = Inr (obs, rwd, False, info, self1) \<and>
               sim self = sim self1 \<and>
               init_qpos self = data_qpos (sim self1) \<and>
               init_qvel self = data_qvel (sim self1) \<and>
               obs_dim self = length obs \<and>
               (\<exists>v. rwd_dict self ''done'' = Some v \<and> py_bool v = Inr False) \<and>
               reset cls self None None =
                 (case Robot_reset cls (data_qpos (sim self1)) (data_qvel (sim self1))
                         (robot self) (sim self) of
                    Inl e \<Rightarrow> Inl e
                  | Inr (r, s) \<Rightarrow> get_obs cls (self\<lparr>robot := r, sim := s\<rparr>))"
    by (auto simp: reset_def)
qed

theorem init_steps_before_recording_witness:
  "init_attributes point_class point_args = Inr point_env0 \<and>
   MujocoEnv_init point_class point_args = Inr point_env \<and>
   map_sum id (sim \<circ> snd \<circ> snd \<circ> snd \<circ> snd) (step point_class point_env0 [0, 0])
     = Inr (point_sim\<lparr>data_time := 1\<rparr>) \<and>
   init_qpos point_env = [0, 0] \<and> init_qvel point_env = [0, 0] \<and>
   rwd_dict point_env ''done'' = Some [0] \<and>
   init_attributes point_class (point_args\<lparr>arg_sim := Some (point_sim\<lparr>data_qpos := [2, 2]\<rparr>)\<rparr>)
     = Inr (point_env0\<lparr>sim := point_sim\<lparr>data_qpos := [2, 2]\<rparr>\<rparr>) \<and>
   map_sum id (fst \<circ> snd \<circ> snd)
     (step point_class (point_env0\<lparr>sim := point_sim\<lparr>data_qpos := [2, 2]\<rparr>\<rparr>) [0, 0]) = Inr True \<and>
   MujocoEnv_init point_class (point_args\<lparr>arg_sim := Some (point_sim\<lparr>data_qpos := [2, 2]\<rparr>)\<rparr>)
     = Inl (AssertionError ''Checking initialization. Simulation starts in a done state.'')"
proof -
  have b: "init_attributes point_class
             (point_args\<lparr>arg_sim := Some (point_sim\<lparr>data_qpos := [2, 2]\<rparr>)\<rparr>)
     = Inr (point_env0\<lparr>sim := point_sim\<lparr>data_qpos := [2, 2]\<rparr>\<rparr>)"
    by (simp add: method_defs point_defs replicate_2)
  have s: "map_sum id (fst \<circ> snd \<circ> snd)
     (step point_class (point_env0\<lparr>sim := point_sim\<lparr>data_qpos := [2, 2]\<rparr>\<rparr>) [0, 0]) = Inr True"
    by (simp add: method_defs point_defs replicate_2)
  have j: "MujocoEnv_init point_class
             (point_args\<lparr>arg_sim := Some (point_sim\<lparr>data_qpos := [2, 2]\<rparr>)\<rparr>)
     = Inl (AssertionError ''Checking initialization. Simulation starts in a done state.'')"
    by (simp add: method_defs point_defs replicate_2)
  have t: "map_sum id (sim \<circ> snd \<circ> snd \<circ> snd \<circ> snd) (step point_class point_env0 [0, 0])
     = Inr (point_sim\<lparr>data_time := 1\<rparr>)"
    by (simp add: method_defs point_defs replicate_2)
  from init_steps_before_recording [OF point_init_attributes]
    point_init_attributes point_init b s j t
  show ?thesis
    by (simp add: point_env_def point_env0_def point_rwd_dict_def)
qed

end
